theory Spec2Isabelle
  imports Complex_Main "HOL-Library.Sublist"
begin

section \<open>The JavaScript run time: strings and numbers\<close>

text \<open>
  The program is one TypeScript module, \<^verbatim>\<open>src/App.tsx\<close>. Its computations are the closures
  \<^verbatim>\<open>parseTimeToMinutes\<close>, \<^verbatim>\<open>formatMinutesToTime\<close>, \<^verbatim>\<open>parseTimeString\<close>,
  \<^verbatim>\<open>processFlightData\<close>, \<^verbatim>\<open>calculateStats\<close> and the \<^verbatim>\<open>onload\<close> handler of
  \<^verbatim>\<open>handleFileUpload\<close>. They lean on a handful of built-in operations, which are written out
  first.

  \<^item> A JavaScript string is a sequence of UTF-16 code units. The model is \<^typ>\<open>string\<close>, a list
    of \<^typ>\<open>char\<close>, each \<^typ>\<open>char\<close> standing for the code unit of the same number; code units
    above \<^verbatim>\<open>0xFF\<close> are outside the model.
  \<^item> A JavaScript number is a double. The model keeps the integers, as \<^typ>\<open>int\<close>; a double
    holds every integer up to \<open>2 ^ 53\<close> in magnitude exactly, and sums, products and rounded
    quotients of such values agree with the doubles as long as they stay in that range. The
    places where the program can leave the integers are marked where they occur.
  \<^item> A spreadsheet cell, as the sheet decoder hands it over with \<^verbatim>\<open>raw: false\<close>, is a piece
    of text or \<^verbatim>\<open>undefined\<close>: a \<^typ>\<open>string option\<close>.
\<close>

type_synonym cell = "string option"

definition backslash :: char where
  "backslash = CHR 0x5C"

text \<open>
  White space as \<^verbatim>\<open>String.prototype.trim\<close>, \<^verbatim>\<open>parseInt\<close>, \<^verbatim>\<open>Number\<close> and the class
  \<^verbatim>\<open>\s\<close> of a regular expression understand it: TAB, LF, VT, FF, CR, SP and NBSP.
\<close>

definition isWhiteSpace :: "char \<Rightarrow> bool" where
  "isWhiteSpace c =
     (c \<in> set [CHR 0x09, CHR 0x0A, CHR 0x0B, CHR 0x0C, CHR 0x0D, CHR 0x20, CHR 0xA0])"

definition trimStart :: "string \<Rightarrow> string" where
  "trimStart s = dropWhile isWhiteSpace s"

definition trim :: "string \<Rightarrow> string" where
  "trim s = rev (dropWhile isWhiteSpace (rev (dropWhile isWhiteSpace s)))"

text \<open>The value of a digit character in radix \<open>R\<close> (up to 16), if it is one.\<close>

definition digitIn :: "nat \<Rightarrow> char \<Rightarrow> nat option" where
  "digitIn R c =
     (let n = (of_char c :: nat);
          v = (if 48 \<le> n \<and> n \<le> 57 then Some (n - 48)
               else if 97 \<le> n \<and> n \<le> 102 then Some (n - 87)
               else if 65 \<le> n \<and> n \<le> 70 then Some (n - 55)
               else None)
      in case v of None \<Rightarrow> None | Some d \<Rightarrow> if d < R then Some d else None)"

definition isDigitIn :: "nat \<Rightarrow> char \<Rightarrow> bool" where
  "isDigitIn R c = (digitIn R c \<noteq> None)"

fun valueIn :: "nat \<Rightarrow> nat \<Rightarrow> string \<Rightarrow> nat" where
  "valueIn R acc [] = acc"
| "valueIn R acc (c # cs) =
     (case digitIn R c of None \<Rightarrow> acc | Some d \<Rightarrow> valueIn R (acc * R + d) cs)"

fun stripSign :: "string \<Rightarrow> bool \<times> string" where
  "stripSign [] = (False, [])"
| "stripSign (c # cs) =
     (if c = CHR ''-'' then (True, cs)
      else if c = CHR ''+'' then (False, cs)
      else (False, c # cs))"

text \<open>
  \<^verbatim>\<open>parseInt(string)\<close> with no radix: skip leading white space, take one sign, take the
  prefix \<^verbatim>\<open>0x\<close> or \<^verbatim>\<open>0X\<close> as radix 16, read the longest run of digits; no digit at all is
  \<^verbatim>\<open>NaN\<close>, here \<open>None\<close>.
\<close>

definition parseInt :: "string \<Rightarrow> int option" where
  "parseInt str =
     (case stripSign (trimStart str) of (neg, s1) \<Rightarrow>
        (let hex = (take 2 s1 = ''0x'' \<or> take 2 s1 = ''0X'');
             R = (if hex then 16 else 10);
             s2 = (if hex then drop 2 s1 else s1);
             z = takeWhile (isDigitIn R) s2
         in if z = [] then None
            else Some ((if neg then - 1 else 1) * int (valueIn R 0 z))))"

text \<open>
  \<^verbatim>\<open>Number(string)\<close>. The text is trimmed; the empty text is 0; a run of decimal digits with
  an optional sign, and the unsigned literals \<^verbatim>\<open>0x..\<close>, \<^verbatim>\<open>0o..\<close>, \<^verbatim>\<open>0b..\<close>, are integers.
  A decimal literal written with a point or an exponent, and \<^verbatim>\<open>Infinity\<close>, is a double that
  the integers of the model do not hold: \<open>FloatLit\<close>. Everything else is \<^verbatim>\<open>NaN\<close>.
\<close>

datatype numval = IntVal int | NaN | FloatLit

definition allDigits :: "nat \<Rightarrow> string \<Rightarrow> bool" where
  "allDigits R s = (s \<noteq> [] \<and> list_all (isDigitIn R) s)"

definition exponentPart :: "string \<Rightarrow> bool" where
  "exponentPart r =
     (case r of
        [] \<Rightarrow> False
      | e # r' \<Rightarrow> (e = CHR ''e'' \<or> e = CHR ''E'') \<and> allDigits 10 (snd (stripSign r')))"

definition decimalFloat :: "string \<Rightarrow> bool" where
  "decimalFloat u =
     (let ip = takeWhile (isDigitIn 10) u; r1 = dropWhile (isDigitIn 10) u
      in case r1 of
           [] \<Rightarrow> False
         | c # r2 \<Rightarrow>
             if c = CHR ''.''
             then (let fp = takeWhile (isDigitIn 10) r2; r3 = dropWhile (isDigitIn 10) r2
                   in (ip \<noteq> [] \<or> fp \<noteq> []) \<and> (r3 = [] \<or> exponentPart r3))
             else ip \<noteq> [] \<and> exponentPart r1)"

definition nonDecimal :: "string \<Rightarrow> nat option" where
  "nonDecimal t =
     (case t of
        z # x # ds \<Rightarrow>
          (let R = (if x = CHR ''x'' \<or> x = CHR ''X'' then 16
                    else if x = CHR ''o'' \<or> x = CHR ''O'' then 8
                    else if x = CHR ''b'' \<or> x = CHR ''B'' then 2
                    else 0)
           in if z = CHR ''0'' \<and> allDigits R ds then Some (valueIn R 0 ds) else None)
      | _ \<Rightarrow> None)"

definition jsNumber :: "string \<Rightarrow> numval" where
  "jsNumber str =
     (let t = trim str
      in if t = [] then IntVal 0
         else case nonDecimal t of
                Some v \<Rightarrow> IntVal (int v)
              | None \<Rightarrow>
                  (case stripSign t of (neg, u) \<Rightarrow>
                     if allDigits 10 u then IntVal ((if neg then - 1 else 1) * int (valueIn 10 0 u))
                     else if u = ''Infinity'' \<or> decimalFloat u then FloatLit
                     else NaN))"

text \<open>
  The decimal text of an integer, as a template literal and \<^verbatim>\<open>toString()\<close> print it, and
  \<^verbatim>\<open>padStart(n, c)\<close> for a one-character filler.
\<close>

fun digitsOf :: "nat \<Rightarrow> string" where
  "digitsOf n =
     (if n < 10 then [char_of (48 + n)]
      else digitsOf (n div 10) @ [char_of (48 + n mod 10)])"

declare digitsOf.simps [simp del]

definition numToString :: "int \<Rightarrow> string" where
  "numToString i = (if i < 0 then CHR ''-'' # digitsOf (nat (- i)) else digitsOf (nat i))"

definition padStart :: "nat \<Rightarrow> char \<Rightarrow> string \<Rightarrow> string" where
  "padStart n c s = replicate (n - length s) c @ s"

text \<open>\<^verbatim>\<open>String.prototype.split\<close> on a one-character separator.\<close>

fun jsSplit :: "char \<Rightarrow> string \<Rightarrow> string list" where
  "jsSplit sep [] = [[]]"
| "jsSplit sep (c # cs) =
     (if c = sep then [] # jsSplit sep cs
      else (case jsSplit sep cs of [] \<Rightarrow> [[c]] | p # ps \<Rightarrow> (c # p) # ps))"

text \<open>The remainder operator \<^verbatim>\<open>%\<close>: the result takes the sign of the dividend.\<close>

definition jsRem :: "int \<Rightarrow> int \<Rightarrow> int" where
  "jsRem a b = (if a < 0 then - ((- a) mod \<bar>b\<bar>) else a mod \<bar>b\<bar>)"


section \<open>The data model\<close>

text \<open>
  \<^verbatim>\<open>interface FlightRecord\<close> and \<^verbatim>\<open>interface FlightStats\<close>. The fields \<^verbatim>\<open>from\<close> and
  \<^verbatim>\<open>to\<close> are primed, the unprimed words being taken. An object used as a dictionary
  (\<^verbatim>\<open>monthlyStats\<close>, \<^verbatim>\<open>routeStats\<close>) is a list of key and value in the order in which
  \<^verbatim>\<open>Object.entries\<close> enumerates it: the order of insertion, since no key of the two
  dictionaries is an array index (a route key holds \<^verbatim>\<open>-\<close>, a month key \<^verbatim>\<open>-\<close> or a sign).
\<close>

type_synonym 'v dict = "(string \<times> 'v) list"

record MonthStat =
  hours :: int
  flights :: int
  cycles :: int

record RouteStat =
  count :: int
  totalTime :: int

record FlightStats =
  totalFlightTime :: string
  totalCycles :: int
  totalFlights :: int
  averageFlightTime :: string
  mostFrequentRoute :: string
  totalDays :: int
  averageFlightsPerDay :: rat
  monthlyStats :: "MonthStat dict"
  routeStats :: "RouteStat dict"

record FlightRecord =
  ser :: string
  date :: string
  from' :: string
  to' :: string
  takeoffHours :: int
  takeoffMinutes :: int
  landingHours :: int
  landingMinutes :: int
  flightHours :: int
  flightMinutes :: int
  cycles :: int
  totalFlightHours :: int
  totalFlightMinutes :: int
  totalCycles :: int
  tlbNumber :: string
  lastDate :: string
  totalHours :: int
  totalMinutes :: int
  totalCyclesSum :: int
  hoursPerMonth :: int
  cyclesPerMonth :: int

section \<open>Time helpers\<close>

text \<open>
  \<^verbatim>\<open>Math.max((hours || 0) * 60 + (minutes || 0), 0)\<close>; on an integer \<^verbatim>\<open>|| 0\<close> changes
  nothing.
\<close>

definition parseTimeToMinutes :: "int \<Rightarrow> int \<Rightarrow> int" where
  "parseTimeToMinutes h m = max (h * 60 + m) 0"

definition formatMinutesToTime :: "int \<Rightarrow> string" where
  "formatMinutesToTime t =
     (let h = t div 60;
          m = jsRem t 60
      in numToString h @ '':'' @ padStart 2 CHR ''0'' (numToString m))"

text \<open>
  \<^verbatim>\<open>parseTimeString\<close>: the first two pieces between colons, each through \<^verbatim>\<open>Number\<close>,
  \<^verbatim>\<open>NaN\<close> (also that of a missing second piece) replaced by 0.
\<close>

definition nanToZero :: "numval \<Rightarrow> numval" where
  "nanToZero v = (if v = NaN then IntVal 0 else v)"

definition parseTimeString :: "string \<Rightarrow> numval \<times> numval" where
  "parseTimeString timeStr =
     (if timeStr = [] then (IntVal 0, IntVal 0)
      else (let parts = map jsNumber (jsSplit CHR '':'' timeStr);
                h = (case parts of x # _ \<Rightarrow> x | _ \<Rightarrow> NaN);
                m = (case parts of _ # y # _ \<Rightarrow> y | _ \<Rightarrow> NaN)
            in (nanToZero h, nanToZero m)))"

section \<open>The record normalizer: \<^verbatim>\<open>processFlightData\<close>\<close>

text \<open>
  A raw row is an object read by key; a key that is absent and a key bound to
  \<^verbatim>\<open>undefined\<close> read the same, so the row is a function from keys to cells. \<open>orElse\<close> is
  \<^verbatim>\<open>cell || d\<close> on a cell (the empty text is falsy), \<open>intCell\<close> is
  \<^verbatim>\<open>parseInt((cell || '0').toString()) || 0\<close>.
\<close>

type_synonym row = "string \<Rightarrow> cell"

definition orElse :: "cell \<Rightarrow> string \<Rightarrow> string" where
  "orElse c d = (case c of None \<Rightarrow> d | Some s \<Rightarrow> if s = [] then d else s)"

definition intCell :: "cell \<Rightarrow> int" where
  "intCell c = (case parseInt (orElse c ''0'') of None \<Rightarrow> 0 | Some n \<Rightarrow> n)"

text \<open>The keys the source writes with an escaped backslash.\<close>

definition key_TotalFH :: string where
  "key_TotalFH = ''Total F'' @ [backslash] @ ''H''"

definition key_TO :: "string \<Rightarrow> string" where
  "key_TO unit = ''T'' @ [backslash] @ ''O '' @ unit"

definition key_FH :: "string \<Rightarrow> string" where
  "key_FH unit = ''F'' @ [backslash] @ ''H '' @ unit"

text \<open>
  Lines 65 to 74: the dual source of \<^verbatim>\<open>totalFlightHours\<close> and \<^verbatim>\<open>totalFlightMinutes\<close>.
  A component that \<^verbatim>\<open>Number\<close> reads as a \<open>FloatLit\<close> is a double outside the integers
  of the model. The result is then \<open>None\<close>: the model says nothing about such a row,
  while the program goes on with the double.
\<close>

definition totalFlight :: "row \<Rightarrow> (int \<times> int) option" where
  "totalFlight r =
     (let totalTimeStr = orElse (r key_TotalFH) []
      in if CHR '':'' \<in> set totalTimeStr
         then (case parseTimeString totalTimeStr of
                 (IntVal h, IntVal m) \<Rightarrow> Some (h, m)
               | _ \<Rightarrow> None)
         else Some (intCell (r ''TOTAL HRS''), 0))"

text \<open>The callback of \<^verbatim>\<open>data.map\<close>, lines 64 to 98, at the index \<open>index\<close>.\<close>

definition normalizeRow :: "nat \<Rightarrow> row \<Rightarrow> FlightRecord option" where
  "normalizeRow index r =
     (case totalFlight r of
        None \<Rightarrow> None
      | Some (tfh, tfm) \<Rightarrow>
          Some \<lparr> ser = orElse (r ''Ser'') (numToString (int index + 1)),
                 date = orElse (r ''Date'') [],
                 from' = orElse (r ''From'') [],
                 to' = orElse (r ''To'') [],
                 takeoffHours = intCell (r (key_TO ''hrs'')),
                 takeoffMinutes = intCell (r (key_TO ''min'')),
                 landingHours = intCell (r ''Landing hrs''),
                 landingMinutes = intCell (r ''Landing min''),
                 flightHours = intCell (r (key_FH ''hrs'')),
                 flightMinutes = intCell (r (key_FH ''min'')),
                 cycles = intCell (r ''Cyc.''),
                 totalFlightHours = tfh,
                 totalFlightMinutes = tfm,
                 totalCycles = intCell (r ''Total Cyc''),
                 tlbNumber = orElse (r ''TLB #'') [],
                 lastDate = orElse (r ''Last Date'') [],
                 totalHours = intCell (r ''TOTAL HRS''),
                 totalMinutes = intCell (r ''TOTAL MIN''),
                 totalCyclesSum = intCell (r ''TOTAL CYC''),
                 hoursPerMonth = intCell (r ''HRS/MOUNTH''),
                 cyclesPerMonth = intCell (r ''CYC/MOUNTH'') \<rparr>)"

fun mapRows :: "nat \<Rightarrow> row list \<Rightarrow> FlightRecord list option" where
  "mapRows index [] = Some []"
| "mapRows index (r # rs) =
     (case normalizeRow index r of
        None \<Rightarrow> None
      | Some x \<Rightarrow> map_option ((#) x) (mapRows (Suc index) rs))"

text \<open>The filter of line 98: \<^verbatim>\<open>r.ser && r.date\<close>, both texts non-empty.\<close>

definition validRecord :: "FlightRecord \<Rightarrow> bool" where
  "validRecord x = (ser x \<noteq> [] \<and> date x \<noteq> [])"

definition processFlightData :: "row list \<Rightarrow> FlightRecord list option" where
  "processFlightData data = map_option (filter validRecord) (mapRows 0 data)"

section \<open>Dates\<close>

text \<open>
  \<^verbatim>\<open>new Date(text)\<close> parses the text as \<^verbatim>\<open>Date.parse\<close> does. ECMAScript fixes the result
  for its own date-time format only and leaves every other text to the engine, so
  \<^verbatim>\<open>Date.parse\<close> is a parameter of the model: the milliseconds since the epoch, or \<open>None\<close> for
  \<^verbatim>\<open>NaN\<close>. The second parameter is \<^verbatim>\<open>parseFloat(q.toFixed(2))\<close> on the double nearest the
  quotient \<open>q\<close>, which is floating point.
\<close>

record platform =
  Date_parse :: "string \<Rightarrow> int option"
  toFixed2 :: "rat \<Rightarrow> rat"

definition msPerDay :: int where
  "msPerDay = 1000 * 60 * 60 * 24"

text \<open>The time value of \<^verbatim>\<open>new Date(text)\<close>; \<open>None\<close> is the invalid date.\<close>

definition newDate :: "platform \<Rightarrow> string \<Rightarrow> int option" where
  "newDate P s =
     (case Date_parse P s of
        None \<Rightarrow> None
      | Some t \<Rightarrow> if \<bar>t\<bar> \<le> 100000000 * msPerDay then Some t else None)"

text \<open>
  \<^verbatim>\<open>toISOString\<close> of a valid date, in UTC: the civil date of the day number, then the time
  of day. A year outside 0 to 9999 is printed with a sign and six digits.
\<close>

definition civilFromDays :: "int \<Rightarrow> int \<times> int \<times> int" where
  "civilFromDays days =
     (let z = days + 719468;
          era = z div 146097;
          doe = z mod 146097;
          yoe = (doe - doe div 1460 + doe div 36524 - doe div 146096) div 365;
          doy = doe - (365 * yoe + yoe div 4 - yoe div 100);
          mp = (5 * doy + 2) div 153;
          d = doy - (153 * mp + 2) div 5 + 1;
          m = (if mp < 10 then mp + 3 else mp - 9);
          y = yoe + era * 400 + (if m \<le> 2 then 1 else 0)
      in (y, m, d))"

definition yearString :: "int \<Rightarrow> string" where
  "yearString y =
     (if 0 \<le> y \<and> y \<le> 9999 then padStart 4 CHR ''0'' (numToString y)
      else (if y < 0 then ''-'' else ''+'') @ padStart 6 CHR ''0'' (numToString \<bar>y\<bar>))"

definition toISOString :: "int \<Rightarrow> string" where
  "toISOString t =
     (case civilFromDays (t div msPerDay) of
        (y, m, d) \<Rightarrow>
          (let ms = t mod msPerDay;
               two = (\<lambda>n. padStart 2 CHR ''0'' (numToString n))
           in yearString y @ ''-'' @ two m @ ''-'' @ two d @ ''T'' @
              two (ms div 3600000) @ '':'' @ two (ms div 60000 mod 60) @ '':'' @
              two (ms div 1000 mod 60) @ ''.'' @
              padStart 3 CHR ''0'' (numToString (ms mod 1000)) @ ''Z''))"

section \<open>The statistics aggregator: \<^verbatim>\<open>calculateStats\<close>\<close>

datatype error = XlsxError | TypeError | RangeError | Error string

definition minutesOf :: "FlightRecord \<Rightarrow> int" where
  "minutesOf x = parseTimeToMinutes (totalFlightHours x) (totalFlightMinutes x)"

definition routeOf :: "FlightRecord \<Rightarrow> string" where
  "routeOf x = from' x @ ''-'' @ to' x"

text \<open>
  \<^verbatim>\<open>if (!d[k]) d[k] = init;\<close> followed by an update of \<^verbatim>\<open>d[k]\<close> in place: a new key goes to
  the end, a known key keeps its place.
\<close>

fun bump :: "string \<Rightarrow> 'v \<Rightarrow> ('v \<Rightarrow> 'v) \<Rightarrow> 'v dict \<Rightarrow> 'v dict" where
  "bump k init f [] = [(k, f init)]"
| "bump k init f ((k', v) # d) =
     (if k' = k then (k', f v) # d else (k', v) # bump k init f d)"

text \<open>Line 116, line 120 and lines 122 to 130.\<close>

definition totalMinutesOf :: "FlightRecord list \<Rightarrow> int" where
  "totalMinutesOf data = foldl (\<lambda>sum x. sum + minutesOf x) 0 data"

definition totalCyclesOf :: "FlightRecord list \<Rightarrow> int" where
  "totalCyclesOf data = foldl (\<lambda>sum x. sum + FlightRecord.totalCycles x) 0 data"

definition addRoute :: "RouteStat dict \<Rightarrow> FlightRecord \<Rightarrow> RouteStat dict" where
  "addRoute d x =
     bump (routeOf x) \<lparr> count = 0, totalTime = 0 \<rparr>
       (\<lambda>v. \<lparr> count = count v + 1, totalTime = totalTime v + minutesOf x \<rparr>) d"

definition routeStatsOf :: "FlightRecord list \<Rightarrow> RouteStat dict" where
  "routeStatsOf data = foldl addRoute [] data"

text \<open>
  Lines 132 and 133. \<^verbatim>\<open>Array.prototype.sort\<close> is stable (ECMAScript 2019) and the comparator
  \<^verbatim>\<open>b.count - a.count\<close> orders by falling count; the stable arrangement by a key is unique,
  so the insertion sort \<^const>\<open>sort_key\<close> on the negated count gives the same array.
\<close>

definition mostFrequentRouteOf :: "FlightRecord list \<Rightarrow> string" where
  "mostFrequentRouteOf data =
     (case sort_key (\<lambda>(k, v). - count v) (routeStatsOf data) of
        [] \<Rightarrow> ''N/A''
      | (k, v) # _ \<Rightarrow> if k = [] then ''N/A'' else k)"

text \<open>
  Lines 135 to 146. \<^verbatim>\<open>toISOString\<close> throws a \<^verbatim>\<open>RangeError\<close> on an invalid date, and nothing
  in \<^verbatim>\<open>calculateStats\<close> catches it.
\<close>

definition addMonth :: "MonthStat dict \<Rightarrow> string \<Rightarrow> FlightRecord \<Rightarrow> MonthStat dict" where
  "addMonth d month x =
     bump month \<lparr> hours = 0, flights = 0, MonthStat.cycles = 0 \<rparr>
       (\<lambda>v. \<lparr> hours = hours v + minutesOf x, flights = flights v + 1,
               MonthStat.cycles = MonthStat.cycles v + FlightRecord.totalCycles x \<rparr>) d"

fun monthlyStatsFrom ::
  "platform \<Rightarrow> MonthStat dict \<Rightarrow> FlightRecord list \<Rightarrow> error + MonthStat dict" where
  "monthlyStatsFrom P d [] = Inr d"
| "monthlyStatsFrom P d (x # xs) =
     (if date x \<noteq> []
      then (case newDate P (date x) of
              None \<Rightarrow> Inl RangeError
            | Some t \<Rightarrow> monthlyStatsFrom P (addMonth d (take 7 (toISOString t)) x) xs)
      else monthlyStatsFrom P d xs)"

text \<open>Lines 148 to 150.\<close>

definition validDates :: "platform \<Rightarrow> FlightRecord list \<Rightarrow> int list" where
  "validDates P data = List.map_filter (\<lambda>x. newDate P (date x)) data"

definition ceilDiv :: "int \<Rightarrow> int \<Rightarrow> int" where
  "ceilDiv a b = - ((- a) div b)"

definition totalDaysOf :: "platform \<Rightarrow> FlightRecord list \<Rightarrow> int" where
  "totalDaysOf P data =
     (let dates = validDates P data
      in if length dates > 0
         then ceilDiv (Max (set dates) - Min (set dates)) msPerDay + 1
         else 0)"

text \<open>\<^verbatim>\<open>Math.round(a / b)\<close> for a positive \<open>b\<close>: the floor of the quotient plus one half.\<close>

definition roundDiv :: "int \<Rightarrow> int \<Rightarrow> int" where
  "roundDiv a b = (2 * a + b) div (2 * b)"

definition emptyStats :: FlightStats where
  "emptyStats =
     \<lparr> totalFlightTime = ''0:00'', FlightStats.totalCycles = 0, totalFlights = 0,
       averageFlightTime = ''0:00'', mostFrequentRoute = ''N/A'', totalDays = 0,
       averageFlightsPerDay = 0, monthlyStats = [], routeStats = [] \<rparr>"

definition calculateStats :: "platform \<Rightarrow> FlightRecord list \<Rightarrow> error + FlightStats" where
  "calculateStats P data =
     (if length data = 0 then Inr emptyStats
      else (case monthlyStatsFrom P [] data of
              Inl e \<Rightarrow> Inl e
            | Inr months \<Rightarrow>
                (let n = int (length data); days = totalDaysOf P data
                 in Inr \<lparr> totalFlightTime = formatMinutesToTime (totalMinutesOf data),
                          FlightStats.totalCycles = totalCyclesOf data,
                          totalFlights = n,
                          averageFlightTime =
                            formatMinutesToTime (roundDiv (totalMinutesOf data) n),
                          mostFrequentRoute = mostFrequentRouteOf data,
                          totalDays = days,
                          averageFlightsPerDay =
                            (if days > 0 then toFixed2 P (of_int n / of_int days) else 0),
                          monthlyStats = months,
                          routeStats = routeStatsOf data \<rparr>)))"

section \<open>The upload: the \<^verbatim>\<open>onload\<close> handler of \<^verbatim>\<open>handleFileUpload\<close>\<close>

text \<open>
  The sheet decoder (\<^verbatim>\<open>XLSX.read\<close> and \<^verbatim>\<open>sheet_to_json\<close> with \<^verbatim>\<open>header: 1\<close>) is outside the
  program. What it hands over is the input of the model: either the error it threw, or
  \<^verbatim>\<open>jsonData\<close>, the rows of the first sheet, each an array of cells in which an empty cell
  is a hole. The first row is the header row.
\<close>

definition requiredHeaders :: "string list" where
  "requiredHeaders = [''Date'', ''From'', ''To'', key_TotalFH, ''Total Cyc'']"

definition missingHeadersMessage :: string where
  "missingHeadersMessage =
     ''Missing required headers (e.g., Date, From, To, Total F'' @ [backslash] @
     ''H, Total Cyc)''"

definition noValidDataMessage :: string where
  "noValidDataMessage = ''No valid flight data found in the file''"

text \<open>
  Line 185: \<^verbatim>\<open>header.trim().replace(/\\|[\s\n]+/g, '')\<close> deletes every backslash and every
  run of white space.
\<close>

definition canonicalKey :: "string \<Rightarrow> string" where
  "canonicalKey header = filter (\<lambda>c. c \<noteq> backslash \<and> \<not> isWhiteSpace c) (trim header)"

text \<open>\<^verbatim>\<open>row[index]\<close>: beyond the end of the array it is \<^verbatim>\<open>undefined\<close>.\<close>

definition cellAt :: "cell list \<Rightarrow> nat \<Rightarrow> cell" where
  "cellAt cells index = (if index < length cells then cells ! index else None)"

text \<open>
  Lines 183 to 186: \<^verbatim>\<open>headers.forEach\<close> visits the headers from the index \<open>index\<close> on,
  skips the holes, and assigns; a later assignment to the same key replaces an earlier one.
\<close>

fun buildRecord :: "cell list \<Rightarrow> nat \<Rightarrow> cell list \<Rightarrow> row \<Rightarrow> row" where
  "buildRecord [] index cells record = record"
| "buildRecord (None # hs) index cells record = buildRecord hs (Suc index) cells record"
| "buildRecord (Some header # hs) index cells record =
     buildRecord hs (Suc index) cells (record(canonicalKey header := cellAt cells index))"

text \<open>
  Lines 182 to 188: each row goes through \<^verbatim>\<open>processFlightData([record])[0]\<close> on its own, and
  the \<^verbatim>\<open>undefined\<close> of an empty result is filtered out.
\<close>

fun processRows :: "cell list \<Rightarrow> cell list list \<Rightarrow> FlightRecord list option" where
  "processRows headers [] = Some []"
| "processRows headers (cells # rest) =
     (case processFlightData [buildRecord headers 0 cells (\<lambda>k. None)] of
        None \<Rightarrow> None
      | Some xs \<Rightarrow> map_option ((@) (take 1 xs)) (processRows headers rest))"

text \<open>
  The \<^verbatim>\<open>try\<close> block, lines 170 to 196: the error that leaves it, or the two values the
  setters receive.
\<close>

definition tryUpload ::
  "platform \<Rightarrow> error + cell list list \<Rightarrow> (error + FlightRecord list \<times> FlightStats) option" where
  "tryUpload P decoded =
     (case decoded of
        Inl e \<Rightarrow> Some (Inl e)
      | Inr jsonData \<Rightarrow>
          (case jsonData of
             [] \<Rightarrow> Some (Inl TypeError)
           | headers # rows \<Rightarrow>
               if \<not> list_all (\<lambda>h. Some h \<in> set headers) requiredHeaders
               then Some (Inl (Error missingHeadersMessage))
               else (case processRows headers rows of
                       None \<Rightarrow> None
                     | Some processedData \<Rightarrow>
                         if length processedData = 0
                         then Some (Inl (Error noValidDataMessage))
                         else (case calculateStats P processedData of
                                 Inl e \<Rightarrow> Some (Inl e)
                               | Inr calculatedStats \<Rightarrow>
                                   Some (Inr (processedData, calculatedStats))))))"

text \<open>
  The state of the component, and the handler as a whole: the \<^verbatim>\<open>catch\<close> clause reports the
  error through \<^verbatim>\<open>alert\<close> and sets nothing, the \<^verbatim>\<open>finally\<close> clause clears \<^verbatim>\<open>isLoading\<close>.
  The result is the new state and the error reported, if any.
\<close>

record appState =
  flightData :: "FlightRecord list"
  stats :: "FlightStats option"
  isLoading :: bool

definition handleFileUpload ::
  "platform \<Rightarrow> error + cell list list \<Rightarrow> appState \<Rightarrow> (appState \<times> error option) option" where
  "handleFileUpload P decoded s =
     (case tryUpload P decoded of
        None \<Rightarrow> None
      | Some (Inl e) \<Rightarrow> Some (s\<lparr> isLoading := False \<rparr>, Some e)
      | Some (Inr (processedData, calculatedStats)) \<Rightarrow>
          Some (s\<lparr> flightData := processedData, stats := Some calculatedStats,
                   isLoading := False \<rparr>, None))"

section \<open>An engine for the examples\<close>

text \<open>
  The examples need a \<^verbatim>\<open>Date.parse\<close>. \<open>isoParse\<close> reads the two forms of the ECMAScript
  date-time format they use, \<^verbatim>\<open>YYYY-MM-DD\<close> and \<^verbatim>\<open>YYYY-MM-DDTHH:mm:ssZ\<close>, both in UTC, and
  nothing else; \<open>makeDay\<close> is the day number of a civil date.
\<close>

definition makeDay :: "int \<Rightarrow> int \<Rightarrow> int \<Rightarrow> int" where
  "makeDay y m d =
     (let y' = (if m \<le> 2 then y - 1 else y);
          era = y' div 400;
          yoe = y' mod 400;
          doy = (153 * (if m > 2 then m - 3 else m + 9) + 2) div 5 + d - 1;
          doe = yoe * 365 + yoe div 4 - yoe div 100 + doy
      in era * 146097 + doe - 719468)"

definition daysInMonth :: "int \<Rightarrow> int \<Rightarrow> int" where
  "daysInMonth y m =
     (if m = 2 then (if y mod 4 = 0 \<and> (y mod 100 \<noteq> 0 \<or> y mod 400 = 0) then 29 else 28)
      else if m \<in> {4, 6, 9, 11} then 30 else 31)"

definition digitsValue :: "string \<Rightarrow> int option" where
  "digitsValue s = (if allDigits 10 s then Some (int (valueIn 10 0 s)) else None)"

definition isoDate :: "string \<Rightarrow> int option" where
  "isoDate s =
     (case (digitsValue (take 4 s), digitsValue (take 2 (drop 5 s)),
            digitsValue (take 2 (drop 8 s))) of
        (Some y, Some m, Some d) \<Rightarrow>
          if length s = 10 \<and> s ! 4 = CHR ''-'' \<and> s ! 7 = CHR ''-'' \<and>
             1 \<le> m \<and> m \<le> 12 \<and> 1 \<le> d \<and> d \<le> daysInMonth y m
          then Some (makeDay y m d * msPerDay)
          else None
      | _ \<Rightarrow> None)"

definition isoTime :: "string \<Rightarrow> int option" where
  "isoTime s =
     (if s = [] then Some 0
      else case (digitsValue (take 2 (drop 1 s)), digitsValue (take 2 (drop 4 s)),
                 digitsValue (take 2 (drop 7 s))) of
             (Some h, Some m, Some sec) \<Rightarrow>
               if length s = 10 \<and> s ! 0 = CHR ''T'' \<and> s ! 3 = CHR '':'' \<and>
                  s ! 6 = CHR '':'' \<and> s ! 9 = CHR ''Z'' \<and> h < 24 \<and> m < 60 \<and> sec < 60
               then Some (((h * 60 + m) * 60 + sec) * 1000)
               else None
           | _ \<Rightarrow> None)"

definition isoParse :: "string \<Rightarrow> int option" where
  "isoParse s =
     (case (isoDate (take 10 s), isoTime (drop 10 s)) of
        (Some day, Some ms) \<Rightarrow> Some (day + ms)
      | _ \<Rightarrow> None)"

definition exampleEngine :: platform where
  "exampleEngine =
     \<lparr> Date_parse = isoParse,
       toFixed2 = (\<lambda>q. of_int \<lfloor>q * 100 + 1 / 2\<rfloor> / 100) \<rparr>"

text \<open>A record with every field empty or zero, to build the examples from.\<close>

definition blankRecord :: FlightRecord where
  "blankRecord =
     \<lparr> ser = [], date = [], from' = [], to' = [],
       takeoffHours = 0, takeoffMinutes = 0, landingHours = 0, landingMinutes = 0,
       flightHours = 0, flightMinutes = 0, cycles = 0,
       totalFlightHours = 0, totalFlightMinutes = 0, totalCycles = 0,
       tlbNumber = [], lastDate = [],
       totalHours = 0, totalMinutes = 0, totalCyclesSum = 0,
       hoursPerMonth = 0, cyclesPerMonth = 0 \<rparr>"

definition flight :: "string \<Rightarrow> string \<Rightarrow> string \<Rightarrow> string \<Rightarrow> int \<Rightarrow> int \<Rightarrow> FlightRecord" where
  "flight s d a b h m =
     blankRecord \<lparr> ser := s, date := d, from' := a, to' := b,
                   totalFlightHours := h, totalFlightMinutes := m \<rparr>"

definition exampleHeaders :: "cell list" where
  "exampleHeaders =
     map Some [''Ser'', ''Date'', ''From'', ''To'', key_TotalFH, ''Total Cyc'', ''TOTAL HRS'',
               ''Cyc.'']"


text \<open>A state with statistics on display, and two uploads that fail.\<close>

definition shownState :: appState where
  "shownState =
     \<lparr> flightData = [flight ''1'' ''2024-01-15'' ''A'' ''B'' 0 0],
       stats = Some emptyStats, isLoading = True \<rparr>"


definition noValidRows :: "cell list list" where
  "noValidRows =
     [map Some [''Ser'', ''Date'', ''From'', ''To'', key_TotalFH, ''Total Cyc''],
      [Some ''1'', None, Some ''A'', Some ''B'', Some ''3:30'', Some ''4'']]"

section \<open>Notions of the specification\<close>

text \<open>
  The time values of the records whose date parses: the dates that the day span of the
  specification ranges over.
\<close>

definition parseableDates :: "platform \<Rightarrow> FlightRecord list \<Rightarrow> int set" where
  "parseableDates P data = {t. \<exists>x \<in> set data. newDate P (date x) = Some t}"


text \<open>Two flights at two hours of one day, and two flights nine days apart.\<close>

definition sameDayFlights :: "FlightRecord list" where
  "sameDayFlights =
     [flight ''1'' ''2024-01-15T08:00:00Z'' ''A'' ''B'' 1 0,
      flight ''2'' ''2024-01-15T20:00:00Z'' ''A'' ''B'' 1 0]"

definition tenDayFlights :: "FlightRecord list" where
  "tenDayFlights =
     [flight ''1'' ''2024-01-01'' ''A'' ''B'' 2 5,
      flight ''2'' ''2024-01-10'' ''A'' ''B'' 1 59]"









section \<open>Properties of the upload pipeline\<close>

text \<open>
  A key of the dictionary that \<^verbatim>\<open>handleFileUpload\<close> builds holds neither a backslash nor
  white space, so a read under a key that holds one finds nothing.
\<close>

lemma canonicalKey_chars:
  "c \<in> set (canonicalKey h) \<Longrightarrow> c \<noteq> backslash \<and> \<not> isWhiteSpace c"
  by (simp add: canonicalKey_def)

lemma buildRecord_other_key:
  "(\<exists>c \<in> set k. c = backslash \<or> isWhiteSpace c) \<Longrightarrow>
   buildRecord hs i cells acc k = acc k"
proof (induction hs i cells acc rule: buildRecord.induct)
  case (3 header hs index cells acc)
  have ne: "canonicalKey header \<noteq> k"
    using "3.prems" canonicalKey_chars by blast
  have "buildRecord hs (Suc index) cells (acc(canonicalKey header := cellAt cells index)) k =
        (acc(canonicalKey header := cellAt cells index)) k"
    using "3.IH" "3.prems" by blast
  with ne show ?case by simp
qed simp_all

lemma intCell_None: "intCell None = 0"
  by code_simp

lemma key_TotalFH_backslash: "backslash \<in> set key_TotalFH"
  by (simp add: key_TotalFH_def)

lemma space_white: "isWhiteSpace CHR '' ''"
  by (simp add: isWhiteSpace_def)

lemma built_TotalFH: "buildRecord hs i cells (\<lambda>k. None) key_TotalFH = None"
  using buildRecord_other_key [of key_TotalFH hs i cells "\<lambda>k. None"] key_TotalFH_backslash
  by auto

lemma built_TOTAL_HRS: "buildRecord hs i cells (\<lambda>k. None) ''TOTAL HRS'' = None"
  using buildRecord_other_key [of "''TOTAL HRS''" hs i cells "\<lambda>k. None"] space_white
  by auto

lemma built_totalFlight: "totalFlight (buildRecord hs i cells (\<lambda>k. None)) = Some (0, 0)"
  by (simp add: totalFlight_def built_TotalFH built_TOTAL_HRS orElse_def intCell_None)

lemma digitsOf_nonempty: "digitsOf n \<noteq> []"
  by (subst digitsOf.simps) simp

lemma numToString_nonempty: "numToString i \<noteq> []"
  by (simp add: numToString_def digitsOf_nonempty)

lemma orElse_nonempty: "d \<noteq> [] \<Longrightarrow> orElse c d \<noteq> []"
  by (simp add: orElse_def split: option.splits)

lemma normalizeRow_ser: "normalizeRow i r = Some x \<Longrightarrow> ser x \<noteq> []"
  by (auto simp: normalizeRow_def orElse_nonempty numToString_nonempty split: option.splits)

lemma numToString_1: "numToString 1 = ''1''"
  by code_simp

lemma built_normalizeRow:
  "\<exists>x. normalizeRow 0 (buildRecord hs i cells (\<lambda>k. None)) = Some x \<and>
       totalFlightHours x = 0 \<and> totalFlightMinutes x = 0 \<and>
       ser x = orElse (buildRecord hs i cells (\<lambda>k. None) ''Ser'') ''1'' \<and>
       date x = orElse (buildRecord hs i cells (\<lambda>k. None) ''Date'') []"
  by (simp add: normalizeRow_def built_totalFlight numToString_1)

lemma processFlightData_single:
  "normalizeRow 0 r = Some x \<Longrightarrow>
   processFlightData [r] = Some (if validRecord x then [x] else [])"
  by (simp add: processFlightData_def)

text \<open>
  What one uploaded row becomes: at most one record, kept when its date is not empty, whose
  total flight time is zero and whose serial, when the cell gives none, is \<open>1\<close>.
\<close>

lemma uploadRow:
  "\<exists>x. processFlightData [buildRecord hs 0 cells (\<lambda>k. None)] =
          Some (if date x \<noteq> [] then [x] else []) \<and>
       totalFlightHours x = 0 \<and> totalFlightMinutes x = 0 \<and>
       ser x = orElse (buildRecord hs 0 cells (\<lambda>k. None) ''Ser'') ''1'' \<and>
       date x = orElse (buildRecord hs 0 cells (\<lambda>k. None) ''Date'') []"
proof -
  obtain x where x: "normalizeRow 0 (buildRecord hs 0 cells (\<lambda>k. None)) = Some x"
    "totalFlightHours x = 0" "totalFlightMinutes x = 0"
    "ser x = orElse (buildRecord hs 0 cells (\<lambda>k. None) ''Ser'') ''1''"
    "date x = orElse (buildRecord hs 0 cells (\<lambda>k. None) ''Date'') []"
    using built_normalizeRow [of hs 0 cells] by blast
  have "ser x \<noteq> []" using x(1) by (rule normalizeRow_ser)
  then have "validRecord x \<longleftrightarrow> date x \<noteq> []" by (simp add: validRecord_def)
  with processFlightData_single [OF x(1)]
  have "processFlightData [buildRecord hs 0 cells (\<lambda>k. None)] =
          Some (if date x \<noteq> [] then [x] else [])" by simp
  with x(2-5) show ?thesis by blast
qed

lemma processRows_total:
  "\<exists>xs. processRows hs rows = Some xs \<and>
        (\<forall>x \<in> set xs. totalFlightHours x = 0 \<and> totalFlightMinutes x = 0)"
proof (induction rows)
  case Nil
  then show ?case by simp
next
  case (Cons cells rows)
  obtain x where x: "processFlightData [buildRecord hs 0 cells (\<lambda>k. None)] =
      Some (if date x \<noteq> [] then [x] else [])" "totalFlightHours x = 0" "totalFlightMinutes x = 0"
    using uploadRow [of hs cells] by blast
  from Cons obtain xs where xs: "processRows hs rows = Some xs"
    "\<forall>x \<in> set xs. totalFlightHours x = 0 \<and> totalFlightMinutes x = 0" by blast
  have "processRows hs (cells # rows) = Some ((if date x \<noteq> [] then [x] else []) @ xs)"
    using x(1) xs(1) by simp
  moreover have "\<forall>y \<in> set ((if date x \<noteq> [] then [x] else []) @ xs).
      totalFlightHours y = 0 \<and> totalFlightMinutes y = 0"
    using x(2,3) xs(2) by auto
  ultimately show ?case by blast
qed

lemma tryUpload_total: "\<exists>res. tryUpload P decoded = Some res"
proof (cases decoded)
  case (Inl e)
  then show ?thesis by (simp add: tryUpload_def)
next
  case (Inr jsonData)
  show ?thesis
  proof (cases jsonData)
    case Nil
    with Inr show ?thesis by (simp add: tryUpload_def)
  next
    case (Cons headers rows)
    obtain xs where xs: "processRows headers rows = Some xs"
      using processRows_total by blast
    show ?thesis
    proof (cases "calculateStats P xs")
      case (Inl e)
      with Inr Cons xs show ?thesis by (simp add: tryUpload_def)
    next
      case (Inr st)
      with \<open>decoded = Inr jsonData\<close> Cons xs show ?thesis by (simp add: tryUpload_def)
    qed
  qed
qed




lemma handleFileUpload_missing:
  assumes "\<not> list_all (\<lambda>h. Some h \<in> set headers) requiredHeaders"
  shows "handleFileUpload P (Inr (headers # rows)) s =
         Some (s\<lparr> isLoading := False \<rparr>, Some (Error missingHeadersMessage))"
  using assms by (simp add: handleFileUpload_def tryUpload_def)

lemma messages_differ: "noValidDataMessage \<noteq> missingHeadersMessage"
  by (simp add: noValidDataMessage_def missingHeadersMessage_def)

section \<open>Properties of the aggregator\<close>

lemma monthlyStatsFrom_Inl:
  "monthlyStatsFrom P d xs = Inl e \<longleftrightarrow>
   e = RangeError \<and> (\<exists>x \<in> set xs. date x \<noteq> [] \<and> newDate P (date x) = None)"
  by (induction xs arbitrary: d) (auto split: option.splits)

text \<open>\<^verbatim>\<open>calculateStats\<close> throws exactly when some date is not empty and does not parse.\<close>

lemma calculateStats_Inl:
  "calculateStats P data = Inl e \<longleftrightarrow>
   e = RangeError \<and> (\<exists>x \<in> set data. date x \<noteq> [] \<and> newDate P (date x) = None)"
proof (cases "data = []")
  case True
  then show ?thesis by (simp add: calculateStats_def)
next
  case False
  show ?thesis
  proof (cases "monthlyStatsFrom P [] data")
    case (Inl e')
    then show ?thesis
      using False monthlyStatsFrom_Inl [of P "[]" data e']
      by (auto simp: calculateStats_def)
  next
    case (Inr months)
    then show ?thesis
      using False monthlyStatsFrom_Inl [of P "[]" data RangeError]
      by (auto simp: calculateStats_def Let_def)
  qed
qed

text \<open>It returns statistics when every date is empty or parses.\<close>

lemma calculateStats_returns:
  assumes "\<forall>x \<in> set data. date x = [] \<or> newDate P (date x) \<noteq> None"
  shows "\<exists>st. calculateStats P data = Inr st"
proof (cases "calculateStats P data")
  case (Inl e)
  then show ?thesis using assms calculateStats_Inl [of P data e] by blast
next
  case (Inr st)
  then show ?thesis by blast
qed

lemma formatMinutesToTime_0: "formatMinutesToTime 0 = ''0:00''"
  by code_simp

lemma mostFrequentRouteOf_Nil: "mostFrequentRouteOf [] = ''N/A''"
  by (simp add: mostFrequentRouteOf_def routeStatsOf_def)

lemma totalDaysOf_Nil: "totalDaysOf P [] = 0"
  by (simp add: totalDaysOf_def validDates_def List.map_filter_simps)

lemma calculateStats_Inr:
  assumes "calculateStats P data = Inr st"
  shows "totalFlightTime st = formatMinutesToTime (totalMinutesOf data)"
    and "mostFrequentRoute st = mostFrequentRouteOf data"
    and "totalDays st = totalDaysOf P data"
    and "totalFlights st = int (length data)"
    and "FlightStats.totalCycles st = totalCyclesOf data"
    and "routeStats st = routeStatsOf data"
proof -
  have "totalFlightTime st = formatMinutesToTime (totalMinutesOf data) \<and>
        mostFrequentRoute st = mostFrequentRouteOf data \<and>
        totalDays st = totalDaysOf P data \<and>
        totalFlights st = int (length data) \<and>
        FlightStats.totalCycles st = totalCyclesOf data \<and>
        routeStats st = routeStatsOf data"
  proof (cases "data = []")
    case True
    with assms have "st = emptyStats" by (simp add: calculateStats_def)
    with True show ?thesis
      by (simp add: emptyStats_def totalMinutesOf_def formatMinutesToTime_0
          mostFrequentRouteOf_Nil totalDaysOf_Nil totalCyclesOf_def routeStatsOf_def)
  next
    case False
    with assms show ?thesis
      by (cases "monthlyStatsFrom P [] data") (auto simp: calculateStats_def Let_def)
  qed
  then show "totalFlightTime st = formatMinutesToTime (totalMinutesOf data)"
    and "mostFrequentRoute st = mostFrequentRouteOf data"
    and "totalDays st = totalDaysOf P data"
    and "totalFlights st = int (length data)"
    and "FlightStats.totalCycles st = totalCyclesOf data"
    and "routeStats st = routeStatsOf data" by simp_all
qed

text \<open>The day span.\<close>

lemma ceilDiv_ceiling: "ceilDiv a b = \<lceil>real_of_int a / real_of_int b\<rceil>"
  unfolding ceilDiv_def by (metis ceiling_divide_eq_div)

lemma set_validDates: "set (validDates P data) = parseableDates P data"
  by (force simp: validDates_def parseableDates_def List.map_filter_def)

lemma totalDaysOf_eq:
  "totalDaysOf P data =
     (if parseableDates P data = {} then 0
      else \<lceil>real_of_int (Max (parseableDates P data) - Min (parseableDates P data)) /
             real_of_int msPerDay\<rceil> + 1)"
proof -
  have "parseableDates P data = {} \<longleftrightarrow> validDates P data = []"
    using set_validDates [of P data] by auto
  then show ?thesis
    by (simp add: totalDaysOf_def Let_def set_validDates ceilDiv_ceiling)
qed

lemma msPerDay_pos: "0 < real_of_int msPerDay"
  by (simp add: msPerDay_def)

section \<open>Properties of the time helpers\<close>

























section \<open>Properties of the normalizer\<close>















section \<open>Properties of the route ranking\<close>














section \<open>The claims\<close>

text \<open>
  Claim C1. A record whose date does not parse is left out of the monthly buckets and
  still counts in the totals, and aggregation returns a \<^verbatim>\<open>FlightStats\<close> rather than
  failing. The code does not do this: line 138 calls \<^verbatim>\<open>toISOString\<close> on the invalid date,
  which throws, while line 148 does filter the invalid dates out. Evaluated on one record
  dated \<^verbatim>\<open>not a date\<close>, \<^verbatim>\<open>calculateStats\<close> ends in the \<^verbatim>\<open>RangeError\<close>.
\<close>

theorem calculateStats_unparseable_date_throws:
  "Date_parse exampleEngine ''not a date'' = None \<and>
   calculateStats exampleEngine [flight ''1'' ''not a date'' ''A'' ''B'' 2 5] = Inl RangeError"
  by code_simp

text \<open>
  Claim C2. In the full pipeline a colon in the cell under \<^verbatim>\<open>Total F\H\<close> gives the hours
  and minutes, and otherwise the cell under \<^verbatim>\<open>TOTAL HRS\<close> gives the hours. The code does not
  do this: the dictionary is built under the keys \<^verbatim>\<open>TotalFH\<close> and \<^verbatim>\<open>TOTALHRS\<close>, the fields
  are read under \<^verbatim>\<open>Total F\H\<close> and \<^verbatim>\<open>TOTAL HRS\<close>, and both reads find nothing. The two rows
  of the claim, uploaded, give 0 hours and 0 minutes each.
\<close>

theorem upload_loses_total_flight_time:
  "map_option (map totalFlightHours)
     (processRows exampleHeaders
        [map Some [''1'', ''2024-01-01'', ''A'', ''B'', ''3:30'', ''5'', ''10''],
         map Some [''2'', ''2024-01-02'', ''A'', ''B'', '''', ''5'', ''10'']]) =
   Some [0, 0] \<and>
   map_option (map totalFlightMinutes)
     (processRows exampleHeaders
        [map Some [''1'', ''2024-01-01'', ''A'', ''B'', ''3:30'', ''5'', ''10''],
         map Some [''2'', ''2024-01-02'', ''A'', ''B'', '''', ''5'', ''10'']]) =
   Some [0, 0]"
  by code_simp

text \<open>
  Claim C3. The record of the n-th uploaded row with no serial has the serial \<open>n\<close>. The
  code does not do this: \<^verbatim>\<open>handleFileUpload\<close> passes each row to \<^verbatim>\<open>processFlightData\<close> in
  an array of its own, where its index is 0. Three uploaded rows without a serial all
  get the serial \<open>1\<close>.
\<close>

theorem upload_serial_default_is_1:
  "map_option (map ser)
     (processRows exampleHeaders
        [[None, Some ''2024-01-01''], [None, Some ''2024-01-02''],
         [Some '''', Some ''2024-01-03'']]) =
   Some [''1'', ''1'', ''1'']"
  by code_simp



text \<open>
  Claim C8. Every upload ends in a state and at most one reported error. When an error is
  reported the records and the statistics are those held before; when none is reported
  both are new, the records being those of the upload and the statistics those that
  \<^verbatim>\<open>calculateStats\<close> returned for them. A decode error, a missing required header and an
  upload of which no row is kept each report an error, the last with a message of its
  own.
\<close>

theorem failed_upload_keeps_state:
  "\<exists>s' e. handleFileUpload P decoded s = Some (s', e) \<and>
     (e \<noteq> None \<longrightarrow> flightData s' = flightData s \<and> stats s' = stats s) \<and>
     (e = None \<longrightarrow>
        (\<exists>headers rows st. decoded = Inr (headers # rows) \<and>
           processRows headers rows = Some (flightData s') \<and>
           calculateStats P (flightData s') = Inr st \<and> stats s' = Some st)) \<and>
     (\<forall>err. decoded = Inl err \<longrightarrow> e = Some err) \<and>
     (\<forall>headers rows. decoded = Inr (headers # rows) \<and>
        \<not> list_all (\<lambda>h. Some h \<in> set headers) requiredHeaders \<longrightarrow>
        e = Some (Error missingHeadersMessage)) \<and>
     (\<forall>headers rows. decoded = Inr (headers # rows) \<and>
        list_all (\<lambda>h. Some h \<in> set headers) requiredHeaders \<and>
        processRows headers rows = Some [] \<longrightarrow>
        e = Some (Error noValidDataMessage)) \<and>
     noValidDataMessage \<noteq> missingHeadersMessage"
proof (cases decoded)
  case (Inl err)
  then have "handleFileUpload P decoded s = Some (s\<lparr> isLoading := False \<rparr>, Some err)"
    by (simp add: handleFileUpload_def tryUpload_def)
  with Inl messages_differ show ?thesis by simp
next
  case (Inr jsonData)
  show ?thesis
  proof (cases jsonData)
    case Nil
    with Inr have "handleFileUpload P decoded s = Some (s\<lparr> isLoading := False \<rparr>, Some TypeError)"
      by (simp add: handleFileUpload_def tryUpload_def)
    with Inr Nil messages_differ show ?thesis by simp
  next
    case (Cons headers rows)
    note dec = Inr Cons
    show ?thesis
    proof (cases "list_all (\<lambda>h. Some h \<in> set headers) requiredHeaders")
      case False
      with dec have "handleFileUpload P decoded s =
          Some (s\<lparr> isLoading := False \<rparr>, Some (Error missingHeadersMessage))"
        by (simp add: handleFileUpload_missing)
      with dec False messages_differ show ?thesis by simp
    next
      case True
      obtain xs where xs: "processRows headers rows = Some xs"
        using processRows_total by blast
      show ?thesis
      proof (cases "xs = []")
        case empty: True
        with dec \<open>list_all (\<lambda>h. Some h \<in> set headers) requiredHeaders\<close> xs
        have "handleFileUpload P decoded s =
            Some (s\<lparr> isLoading := False \<rparr>, Some (Error noValidDataMessage))"
          by (simp add: handleFileUpload_def tryUpload_def)
        with dec True xs messages_differ show ?thesis by simp
      next
        case nonempty: False
        show ?thesis
        proof (cases "calculateStats P xs")
          case (Inl err)
          with dec True xs nonempty
          have "handleFileUpload P decoded s = Some (s\<lparr> isLoading := False \<rparr>, Some err)"
            by (simp add: handleFileUpload_def tryUpload_def)
          with dec True xs nonempty messages_differ show ?thesis by simp
        next
          case (Inr st)
          with dec True xs nonempty
          have "handleFileUpload P decoded s =
              Some (s\<lparr> flightData := xs, stats := Some st, isLoading := False \<rparr>, None)"
            by (simp add: handleFileUpload_def tryUpload_def)
          with dec True xs nonempty Inr messages_differ show ?thesis by simp
        qed
      qed
    qed
  qed
qed

theorem failed_upload_keeps_state_witness:
  "list_all (\<lambda>h. Some h \<in> set (hd noValidRows)) requiredHeaders \<and>
   processRows (hd noValidRows) (tl noValidRows) = Some [] \<and>
   (\<exists>s'. handleFileUpload exampleEngine (Inr noValidRows) shownState =
           Some (s', Some (Error noValidDataMessage)) \<and>
         flightData s' = flightData shownState \<and> stats s' = stats shownState)"
proof -
  have a: "list_all (\<lambda>h. Some h \<in> set (hd noValidRows)) requiredHeaders" by code_simp
  have b: "processRows (hd noValidRows) (tl noValidRows) = Some []" by code_simp
  have c: "Inr noValidRows = (Inr (hd noValidRows # tl noValidRows) :: error + cell list list)"
    by (simp add: noValidRows_def)
  obtain s' e where r: "handleFileUpload exampleEngine (Inr noValidRows) shownState = Some (s', e)"
    and keep: "e \<noteq> None \<longrightarrow> flightData s' = flightData shownState \<and> stats s' = stats shownState"
    and err: "e = Some (Error noValidDataMessage)"
    using failed_upload_keeps_state [of exampleEngine "Inr noValidRows" shownState] a b c
    by blast
  from r keep err a b show ?thesis by simp
qed



text \<open>
  Claim C6, as stated: with a parseable date \<^verbatim>\<open>totalDays\<close> is the ceiling of the span in
  days plus one, without one it is 0, and dates that all fall on a single day give 1. The
  last part fails: the span is taken between instants, not between days, so two flights of
  2024-01-15, at 08:00 and at 20:00, give 2.
\<close>

theorem same_day_two_instants_counts_two:
  "map (newDate exampleEngine \<circ> date) sameDayFlights =
     [Some 1705305600000, Some 1705348800000] \<and>
   take 10 (toISOString 1705305600000) = ''2024-01-15'' \<and>
   take 10 (toISOString 1705348800000) = ''2024-01-15'' \<and>
   map_sum id totalDays (calculateStats exampleEngine sameDayFlights) = Inr 2"
  by code_simp

text \<open>
  Claim C6, amended. Whenever aggregation returns statistics: with a parseable date
  \<^verbatim>\<open>totalDays\<close> is the ceiling of (latest instant minus earliest instant) in days, plus
  one; without one it is 0; parseable dates that all denote one instant give 1, and a span
  of more than nothing and at most a day gives 2; records dated 2024-01-01 and 2024-01-10
  give 10.
\<close>

theorem totalDays_span:
  assumes "calculateStats P data = Inr st"
  shows "(parseableDates P data \<noteq> {} \<longrightarrow>
            totalDays st =
              \<lceil>real_of_int (Max (parseableDates P data) - Min (parseableDates P data)) /
                 real_of_int msPerDay\<rceil> + 1) \<and>
         (parseableDates P data = {} \<longrightarrow> totalDays st = 0) \<and>
         ((\<exists>t. parseableDates P data = {t}) \<longrightarrow> totalDays st = 1) \<and>
         (parseableDates P data \<noteq> {} \<and>
          0 < Max (parseableDates P data) - Min (parseableDates P data) \<and>
          Max (parseableDates P data) - Min (parseableDates P data) \<le> msPerDay \<longrightarrow>
            totalDays st = 2) \<and>
         (map date data = [''2024-01-01'', ''2024-01-10''] \<and>
          Date_parse P ''2024-01-01'' = Some 1704067200000 \<and>
          Date_parse P ''2024-01-10'' = Some 1704844800000 \<longrightarrow>
            totalDays st = 10)"
proof -
  have td: "totalDays st = totalDaysOf P data"
    using assms by (rule calculateStats_Inr)
  have one: "(\<exists>t. parseableDates P data = {t}) \<longrightarrow> totalDays st = 1"
    by (auto simp: td totalDaysOf_eq)
  have two: "parseableDates P data \<noteq> {} \<and>
          0 < Max (parseableDates P data) - Min (parseableDates P data) \<and>
          Max (parseableDates P data) - Min (parseableDates P data) \<le> msPerDay \<longrightarrow>
            totalDays st = 2"
  proof (intro impI, elim conjE)
    let ?d = "Max (parseableDates P data) - Min (parseableDates P data)"
    assume ne: "parseableDates P data \<noteq> {}" and pos: "0 < ?d" and le: "?d \<le> msPerDay"
    have "0 < real_of_int ?d / real_of_int msPerDay"
      using pos msPerDay_pos by simp
    moreover have "real_of_int ?d / real_of_int msPerDay \<le> 1"
      using le msPerDay_pos by simp
    ultimately have "\<lceil>real_of_int ?d / real_of_int msPerDay\<rceil> = 1"
      by (simp add: ceiling_eq_iff)
    with ne show "totalDays st = 2" by (simp add: td totalDaysOf_eq)
  qed
  have ten: "map date data = [''2024-01-01'', ''2024-01-10''] \<and>
          Date_parse P ''2024-01-01'' = Some 1704067200000 \<and>
          Date_parse P ''2024-01-10'' = Some 1704844800000 \<longrightarrow>
            totalDays st = 10"
  proof (intro impI, elim conjE)
    assume m: "map date data = [''2024-01-01'', ''2024-01-10'']"
      and a: "Date_parse P ''2024-01-01'' = Some 1704067200000"
      and b: "Date_parse P ''2024-01-10'' = Some 1704844800000"
    from m obtain x y where xy: "data = [x, y]" "date x = ''2024-01-01''" "date y = ''2024-01-10''"
      by auto
    have "parseableDates P data = {1704067200000, 1704844800000}"
      using xy a b by (auto simp: parseableDates_def newDate_def msPerDay_def)
    then show "totalDays st = 10"
      by (simp add: td totalDaysOf_eq msPerDay_def)
  qed
  show ?thesis using one two ten by (simp add: td totalDaysOf_eq)
qed

theorem totalDays_span_witness:
  "(\<exists>st. calculateStats exampleEngine tenDayFlights = Inr st \<and> totalDays st = 10) \<and>
   map date tenDayFlights = [''2024-01-01'', ''2024-01-10''] \<and>
   Date_parse exampleEngine ''2024-01-01'' = Some 1704067200000 \<and>
   Date_parse exampleEngine ''2024-01-10'' = Some 1704844800000"
proof -
  have r: "\<not> isl (calculateStats exampleEngine tenDayFlights)" by code_simp
  then obtain st where st: "calculateStats exampleEngine tenDayFlights = Inr st"
    by (cases "calculateStats exampleEngine tenDayFlights") auto
  have m: "map date tenDayFlights = [''2024-01-01'', ''2024-01-10'']" by code_simp
  have a: "Date_parse exampleEngine ''2024-01-01'' = Some 1704067200000" by code_simp
  have b: "Date_parse exampleEngine ''2024-01-10'' = Some 1704844800000" by code_simp
  from totalDays_span [OF st] m a b have "totalDays st = 10" by blast
  with st m a b show ?thesis by blast
qed








end
